theory Spec2Isabelle
  imports Complex_Main "HOL-Library.Char_ord" "HOL-Library.List_Lexorder"
    "HOL-Library.Product_Lexorder"
begin

section \<open>Numeric cells\<close>

text \<open>
  A numeric cell of a pandas column is a double. The model keeps the special values of
  IEEE arithmetic that the dashboard can produce (the two infinities and NaN, which is
  also the value of a missing cell) and idealises every finite double as an exact
  rational: rounding, overflow of finite values and the sign of zero are not modelled.
\<close>

datatype fl = Fin rat | PInf | NInf | NaN

fun fl_neg :: "fl \<Rightarrow> fl" where
  "fl_neg (Fin a) = Fin (- a)"
| "fl_neg PInf = NInf"
| "fl_neg NInf = PInf"
| "fl_neg NaN = NaN"

fun fl_add :: "fl \<Rightarrow> fl \<Rightarrow> fl" where
  "fl_add (Fin a) (Fin b) = Fin (a + b)"
| "fl_add (Fin a) PInf = PInf"
| "fl_add (Fin a) NInf = NInf"
| "fl_add PInf (Fin b) = PInf"
| "fl_add PInf PInf = PInf"
| "fl_add PInf NInf = NaN"
| "fl_add NInf (Fin b) = NInf"
| "fl_add NInf PInf = NaN"
| "fl_add NInf NInf = NInf"
| "fl_add NaN y = NaN"
| "fl_add x NaN = NaN"

definition fl_sub :: "fl \<Rightarrow> fl \<Rightarrow> fl" where
  "fl_sub x y = fl_add x (fl_neg y)"

text \<open>The infinity whose sign is the sign of the product of two nonzero factors.\<close>

definition signed_inf :: "bool \<Rightarrow> fl" where
  "signed_inf positive = (if positive then PInf else NInf)"

fun fl_mul :: "fl \<Rightarrow> fl \<Rightarrow> fl" where
  "fl_mul (Fin a) (Fin b) = Fin (a * b)"
| "fl_mul (Fin a) PInf = (if a = 0 then NaN else signed_inf (0 < a))"
| "fl_mul (Fin a) NInf = (if a = 0 then NaN else signed_inf (a < 0))"
| "fl_mul PInf (Fin b) = (if b = 0 then NaN else signed_inf (0 < b))"
| "fl_mul NInf (Fin b) = (if b = 0 then NaN else signed_inf (b < 0))"
| "fl_mul PInf PInf = PInf"
| "fl_mul PInf NInf = NInf"
| "fl_mul NInf PInf = NInf"
| "fl_mul NInf NInf = PInf"
| "fl_mul NaN y = NaN"
| "fl_mul x NaN = NaN"

text \<open>
  Division of numpy scalars and of pandas columns does not raise: a nonzero value
  over zero is an infinity, zero over zero is NaN.
\<close>

fun fl_div :: "fl \<Rightarrow> fl \<Rightarrow> fl" where
  "fl_div (Fin a) (Fin b) =
     (if b = 0 then (if a = 0 then NaN else signed_inf (0 < a)) else Fin (a / b))"
| "fl_div (Fin a) PInf = Fin 0"
| "fl_div (Fin a) NInf = Fin 0"
| "fl_div PInf (Fin b) = signed_inf (0 \<le> b)"
| "fl_div NInf (Fin b) = signed_inf (b < 0)"
| "fl_div PInf PInf = NaN"
| "fl_div PInf NInf = NaN"
| "fl_div NInf PInf = NaN"
| "fl_div NInf NInf = NaN"
| "fl_div NaN y = NaN"
| "fl_div x NaN = NaN"

definition of_count :: "nat \<Rightarrow> fl" where
  "of_count n = Fin (of_nat n)"

definition of_bool_cell :: "bool \<Rightarrow> fl" where
  "of_bool_cell b = Fin (if b then 1 else 0)"

subsection \<open>Column reductions\<close>

text \<open>
  \<open>Series.sum()\<close>, \<open>Series.mean()\<close> and \<open>Series.count()\<close> skip NaN cells: the sum of no
  cells is 0, the mean of no cells is NaN.
\<close>

fun series_sum :: "fl list \<Rightarrow> fl" where
  "series_sum [] = Fin 0"
| "series_sum (x # xs) = (if x = NaN then series_sum xs else fl_add x (series_sum xs))"

definition series_count :: "fl list \<Rightarrow> nat" where
  "series_count xs = length (filter (\<lambda>x. x \<noteq> NaN) xs)"

definition series_mean :: "fl list \<Rightarrow> fl" where
  "series_mean xs =
     (if series_count xs = 0 then NaN
      else fl_div (series_sum xs) (of_count (series_count xs)))"

section \<open>Tables\<close>

datatype month = Jan | Feb | Mar | Apr | May | Jun | Jul | Aug | Sep | Oct | Nov | Dec

text \<open>A parsed \<open>date\<close> cell (the result of \<open>pd.to_datetime\<close>); the time of day plays no part.\<close>

record date =
  year :: nat
  month :: month
  day :: nat

text \<open>
  A cell of a \<open>vehicle_id\<close> column as \<open>pd.read_csv\<close> returns it: the column of a file whose
  cells are all integers has the dtype int64 and holds integers, the column of any other
  file has the dtype object and holds strings.
\<close>

datatype id_cell = is_Int_id: Int_id int | is_Str_id: Str_id string

text \<open>A row of \<open>deliveries.csv\<close> and a row of \<open>fleet.csv\<close>, as \<open>pd.read_csv\<close> returns them.\<close>

record raw_delivery =
  raw_delivery_id :: string
  raw_vehicle_id :: id_cell
  raw_date :: date
  raw_city :: string
  raw_planned_minutes :: fl
  raw_actual_minutes :: fl
  raw_on_time :: bool
  raw_fuel_cost :: fl
  raw_other_cost :: fl
  raw_distance_km :: fl

record vehicle =
  fleet_vehicle_id :: id_cell
  fleet_city :: string

text \<open>A row of the frame that \<open>load_and_prepare_data\<close> returns.\<close>

record enriched =
  delivery_id :: string
  vehicle_id :: id_cell
  date :: date
  delivery_city :: string
  planned_minutes :: fl
  actual_minutes :: fl
  on_time :: bool
  fuel_cost :: fl
  other_cost :: fl
  distance_km :: fl
  vehicle_home_city :: "string option"
  delay_minutes :: fl
  total_cost :: fl
  cost_per_km :: fl
  fuel_cost_per_km :: fl
  month_name :: string

subsection \<open>The period label\<close>

fun month_abbr :: "month \<Rightarrow> string" where
  "month_abbr Jan = ''Jan''"
| "month_abbr Feb = ''Feb''"
| "month_abbr Mar = ''Mar''"
| "month_abbr Apr = ''Apr''"
| "month_abbr May = ''May''"
| "month_abbr Jun = ''Jun''"
| "month_abbr Jul = ''Jul''"
| "month_abbr Aug = ''Aug''"
| "month_abbr Sep = ''Sep''"
| "month_abbr Oct = ''Oct''"
| "month_abbr Nov = ''Nov''"
| "month_abbr Dec = ''Dec''"

definition digit :: "nat \<Rightarrow> char" where
  "digit d = ''0123456789'' ! (d mod 10)"

text \<open>\<open>%Y\<close>: the years of a pandas timestamp (1677 to 2262) have four digits.\<close>

definition year_str :: "nat \<Rightarrow> string" where
  "year_str y = [digit (y div 1000), digit (y div 100), digit (y div 10), digit y]"

text \<open>\<open>strftime('%b %Y')\<close>\<close>

definition strftime_b_Y :: "month \<Rightarrow> nat \<Rightarrow> string" where
  "strftime_b_Y m y = month_abbr m @ '' '' @ year_str y"

section \<open>Data loading and preparation\<close>

text \<open>What \<open>pd.read_csv\<close> does on one file: it raises \<open>FileNotFoundError\<close>, raises another
  exception (the file is there but cannot be read or parsed), or returns the rows.\<close>

datatype 'a read_csv = FileNotFoundError | OtherReadError | is_Csv: Csv "'a list"

datatype py_error = ReadError | ValueError

text \<open>
  The rows of \<open>pd.merge(deliveries_df, fleet_df, on='vehicle_id', how='left')\<close>: every
  delivery row, in order, once for each fleet row with its \<open>vehicle_id\<close> (in the fleet's
  order), and once with no fleet row when there is none.
\<close>

definition merge_rows :: "raw_delivery list \<Rightarrow> vehicle list \<Rightarrow> (raw_delivery \<times> vehicle option) list" where
  "merge_rows deliveries_df fleet_df =
     concat (map (\<lambda>d.
       (case filter (\<lambda>v. fleet_vehicle_id v = raw_vehicle_id d) fleet_df of
          [] \<Rightarrow> [(d, None)]
        | ms \<Rightarrow> map (\<lambda>v. (d, Some v)) ms)) deliveries_df)"

text \<open>
  \<open>pd.merge\<close> checks the two key columns before it joins: when both frames have rows, one
  key column is int64 and the other holds strings, it raises \<open>ValueError\<close> (``You are
  trying to merge on int64 and object columns'').
\<close>

definition merge_raises :: "id_cell list \<Rightarrow> id_cell list \<Rightarrow> bool" where
  "merge_raises left_keys right_keys =
     (left_keys \<noteq> [] \<and> right_keys \<noteq> []
      \<and> (list_all is_Int_id left_keys \<and> list_all is_Str_id right_keys
         \<or> list_all is_Str_id left_keys \<and> list_all is_Int_id right_keys))"

definition merge_left ::
  "raw_delivery list \<Rightarrow> vehicle list \<Rightarrow> py_error + (raw_delivery \<times> vehicle option) list" where
  "merge_left deliveries_df fleet_df =
     (if merge_raises (map raw_vehicle_id deliveries_df) (map fleet_vehicle_id fleet_df)
      then Inl ValueError
      else Inr (merge_rows deliveries_df fleet_df))"

text \<open>The renaming of the two \<open>city\<close> columns and the derived columns, on one merged row.\<close>

definition prepare_row :: "raw_delivery \<times> vehicle option \<Rightarrow> enriched" where
  "prepare_row p =
     (let d = fst p;
          total = fl_add (raw_fuel_cost d) (raw_other_cost d)
      in \<lparr> delivery_id = raw_delivery_id d,
           vehicle_id = raw_vehicle_id d,
           date = raw_date d,
           delivery_city = raw_city d,
           planned_minutes = raw_planned_minutes d,
           actual_minutes = raw_actual_minutes d,
           on_time = raw_on_time d,
           fuel_cost = raw_fuel_cost d,
           other_cost = raw_other_cost d,
           distance_km = raw_distance_km d,
           vehicle_home_city = map_option fleet_city (snd p),
           delay_minutes = fl_sub (raw_actual_minutes d) (raw_planned_minutes d),
           total_cost = total,
           cost_per_km = fl_div total (raw_distance_km d),
           fuel_cost_per_km = fl_div (raw_fuel_cost d) (raw_distance_km d),
           month_name = strftime_b_Y (month (raw_date d)) (year (raw_date d)) \<rparr>)"

definition missing_files_message :: string where
  "missing_files_message =
     ''Missing data files. Ensure 'deliveries.csv' and 'fleet.csv' are in the same directory.''"

text \<open>
  \<open>load_and_prepare_data\<close>. The two files are read in order inside the \<open>try\<close>; only
  \<open>FileNotFoundError\<close> is caught, and then the error message is shown with \<open>st.error\<close> and
  an empty frame is returned. Any other exception of \<open>pd.read_csv\<close> leaves the function,
  and so does the exception of \<open>pd.merge\<close>, which is outside the \<open>try\<close>. The result is
  the list of messages shown and the frame, as its list of rows.
\<close>

definition load_and_prepare_data ::
  "raw_delivery read_csv \<Rightarrow> vehicle read_csv \<Rightarrow> py_error + (string list \<times> enriched list)" where
  "load_and_prepare_data deliveries_csv fleet_csv =
     (case deliveries_csv of
        FileNotFoundError \<Rightarrow> Inr ([missing_files_message], [])
      | OtherReadError \<Rightarrow> Inl ReadError
      | Csv deliveries_df \<Rightarrow>
          (case fleet_csv of
             FileNotFoundError \<Rightarrow> Inr ([missing_files_message], [])
           | OtherReadError \<Rightarrow> Inl ReadError
           | Csv fleet_df \<Rightarrow>
               (case merge_left deliveries_df fleet_df of
                  Inl e \<Rightarrow> Inl e
                | Inr df \<Rightarrow> Inr ([], map prepare_row df))))"

section \<open>KPI calculations\<close>

text \<open>
  \<open>df.groupby(key)\<close> on a column without missing cells: one group for each value of
  the key, in ascending order, with its rows. The order of the keys is given by a
  function into an ordered type.
\<close>

definition groupby_rows ::
  "('k \<Rightarrow> 'o::linorder) \<Rightarrow> ('r \<Rightarrow> 'k) \<Rightarrow> 'r list \<Rightarrow> ('k \<times> 'r list) list" where
  "groupby_rows ord key df =
     map (\<lambda>k. (k, filter (\<lambda>r. key r = k) df)) (sort_key ord (remdups (map key df)))"

text \<open>\<open>df.groupby(key)[col].count()\<close>\<close>

definition groupby_count ::
  "('k \<Rightarrow> 'o::linorder) \<Rightarrow> ('r \<Rightarrow> 'k) \<Rightarrow> 'r list \<Rightarrow> ('k \<times> nat) list" where
  "groupby_count ord key df = map (\<lambda>g. (fst g, length (snd g))) (groupby_rows ord key df)"

text \<open>The order of the vehicle ids: integers by value, before strings; strings by their characters.\<close>

fun id_order :: "id_cell \<Rightarrow> bool \<times> int \<times> string" where
  "id_order (Int_id i) = (False, i, [])"
| "id_order (Str_id s) = (True, 0, s)"

definition str_order :: "string \<Rightarrow> string" where
  "str_order s = s"

record kpis =
  Average_Delay :: fl
  On_Time_Rate :: fl
  Cost_per_Kilometer :: fl
  Deliveries_per_Vehicle :: fl
  Fuel_Cost_Ratio :: fl

definition calculate_kpis :: "enriched list \<Rightarrow> kpis" where
  "calculate_kpis df =
     \<lparr> Average_Delay = series_mean (map delay_minutes df),
       On_Time_Rate =
         fl_mul (fl_div (series_sum (map (\<lambda>r. of_bool_cell (on_time r)) df)) (of_count (length df)))
                (Fin 100),
       Cost_per_Kilometer =
         fl_div (series_sum (map total_cost df)) (series_sum (map distance_km df)),
       Deliveries_per_Vehicle =
         series_mean (map (\<lambda>g. of_count (snd g)) (groupby_count id_order vehicle_id df)),
       Fuel_Cost_Ratio =
         fl_mul (fl_div (series_sum (map fuel_cost df)) (series_sum (map total_cost df)))
                (Fin 100) \<rparr>"

section \<open>Filters\<close>

text \<open>
  The two filters of \<open>main\<close>: a selection other than \<open>All\<close> keeps the rows whose column
  equals it.
\<close>

definition filter_city :: "string \<Rightarrow> enriched list \<Rightarrow> enriched list" where
  "filter_city selected_city df =
     (if selected_city \<noteq> ''All'' then filter (\<lambda>r. delivery_city r = selected_city) df else df)"

definition filter_month :: "string \<Rightarrow> enriched list \<Rightarrow> enriched list" where
  "filter_month selected_month df =
     (if selected_month \<noteq> ''All'' then filter (\<lambda>r. month_name r = selected_month) df else df)"

text \<open>The options of the two radio buttons.\<close>

definition cities :: "enriched list \<Rightarrow> string list" where
  "cities df = sort (remdups (map delivery_city df))"

definition months :: "enriched list \<Rightarrow> string list" where
  "months df = sort (remdups (map month_name df))"

section \<open>Monthly resampling\<close>

fun month_number :: "month \<Rightarrow> nat" where
  "month_number Jan = 0"
| "month_number Feb = 1"
| "month_number Mar = 2"
| "month_number Apr = 3"
| "month_number May = 4"
| "month_number Jun = 5"
| "month_number Jul = 6"
| "month_number Aug = 7"
| "month_number Sep = 8"
| "month_number Oct = 9"
| "month_number Nov = 10"
| "month_number Dec = 11"

definition month_of_number :: "nat \<Rightarrow> month" where
  "month_of_number n = [Jan, Feb, Mar, Apr, May, Jun, Jul, Aug, Sep, Oct, Nov, Dec] ! (n mod 12)"

text \<open>
  A calendar month, counted from January of year 0: the bin of \<open>resample('M')\<close> that a
  date falls in, which the resampled frame labels with the last day of that month.
\<close>

definition month_index :: "date \<Rightarrow> nat" where
  "month_index d = 12 * year d + month_number (month d)"

text \<open>
  \<open>df.set_index('date').resample('M')\<close>: no bin for an empty frame; otherwise one bin
  for each calendar month from the month of the earliest date to the month of the latest,
  in ascending order, each with the rows dated in it (none, for a month without rows).
\<close>

definition first_month :: "enriched list \<Rightarrow> nat" where
  "first_month df = Min (set (map (\<lambda>r. month_index (date r)) df))"

definition last_month :: "enriched list \<Rightarrow> nat" where
  "last_month df = Max (set (map (\<lambda>r. month_index (date r)) df))"

definition resample_M :: "enriched list \<Rightarrow> (nat \<times> enriched list) list" where
  "resample_M df =
     (if df = [] then []
      else map (\<lambda>k. (k, filter (\<lambda>r. month_index (date r) = k) df))
               [first_month df ..< Suc (last_month df)])"

record monthly_summary_row =
  ms_date :: nat
  ms_avg_delay :: fl
  ms_on_time_rate :: fl
  ms_cost_per_km :: fl
  ms_deliveries_per_vehicle :: fl
  ms_fuel_cost_ratio :: fl

text \<open>The column \<open>fuel_cost_ratio\<close> that \<open>main\<close> adds to its copy of the frame.\<close>

definition row_fuel_cost_ratio :: "enriched \<Rightarrow> fl" where
  "row_fuel_cost_ratio r = fl_mul (fl_div (fuel_cost r) (total_cost r)) (Fin 100)"

text \<open>The five aggregates of one bin.\<close>

definition summary_row :: "nat \<times> enriched list \<Rightarrow> monthly_summary_row" where
  "summary_row b =
     \<lparr> ms_date = fst b,
       ms_avg_delay = series_mean (map delay_minutes (snd b)),
       ms_on_time_rate = series_mean (map (\<lambda>r. of_bool_cell (on_time r)) (snd b)),
       ms_cost_per_km = series_mean (map cost_per_km (snd b)),
       ms_deliveries_per_vehicle = of_count (length (snd b)),
       ms_fuel_cost_ratio = series_mean (map row_fuel_cost_ratio (snd b)) \<rparr>"

text \<open>
  \<open>df_with_ratio.set_index('date').resample('M').agg(...).reset_index()\<close>. On a frame
  without rows pandas 2 raises \<open>ValueError\<close> (``cannot insert date, already exists''): the
  aggregate of no bin already has the column \<open>date\<close> that \<open>reset_index\<close> inserts.
\<close>

definition monthly_summary :: "enriched list \<Rightarrow> py_error + monthly_summary_row list" where
  "monthly_summary df =
     (if df = [] then Inl ValueError else Inr (map summary_row (resample_M df)))"

subsection \<open>Month over month\<close>

text \<open>The body of the loop over the five columns, on one column of the monthly summary.\<close>

definition mom_of :: "fl list \<Rightarrow> fl" where
  "mom_of col =
     (if 2 \<le> length col then
        (let prev = col ! (length col - 2); curr = col ! (length col - 1)
         in if prev \<noteq> Fin 0 then fl_mul (fl_div (fl_sub curr prev) prev) (Fin 100) else Fin 0)
      else Fin 0)"

record mom_values =
  mom_avg_delay :: fl
  mom_on_time_rate :: fl
  mom_cost_per_km :: fl
  mom_deliveries_per_vehicle :: fl
  mom_fuel_cost_ratio :: fl

definition compute_mom_values :: "monthly_summary_row list \<Rightarrow> mom_values" where
  "compute_mom_values s =
     \<lparr> mom_avg_delay = mom_of (map ms_avg_delay s),
       mom_on_time_rate = mom_of (map ms_on_time_rate s),
       mom_cost_per_km = mom_of (map ms_cost_per_km s),
       mom_deliveries_per_vehicle = mom_of (map ms_deliveries_per_vehicle s),
       mom_fuel_cost_ratio = mom_of (map ms_fuel_cost_ratio s) \<rparr>"

section \<open>Chart data\<close>

record monthly_trend_row =
  mt_date :: nat
  mt_avg_delay :: fl
  mt_cost_per_km :: fl
  mt_month_name :: string

definition delay_by_city :: "enriched list \<Rightarrow> (string \<times> fl) list" where
  "delay_by_city df =
     map (\<lambda>g. (fst g, series_mean (map delay_minutes (snd g)))) (groupby_rows str_order delivery_city df)"

definition cost_time_city :: "enriched list \<Rightarrow> (string \<times> fl \<times> fl) list" where
  "cost_time_city df =
     map (\<lambda>g. (fst g, series_mean (map cost_per_km (snd g)),
                fl_mul (series_mean (map (\<lambda>r. of_bool_cell (on_time r)) (snd g))) (Fin 100)))
         (groupby_rows str_order delivery_city df)"

definition deliveries_per_vehicle_data :: "enriched list \<Rightarrow> (id_cell \<times> nat) list" where
  "deliveries_per_vehicle_data df = groupby_count id_order vehicle_id df"

definition trend_row :: "nat \<times> enriched list \<Rightarrow> monthly_trend_row" where
  "trend_row b =
     \<lparr> mt_date = fst b,
       mt_avg_delay = series_mean (map delay_minutes (snd b)),
       mt_cost_per_km = series_mean (map cost_per_km (snd b)),
       mt_month_name = strftime_b_Y (month_of_number (fst b)) (fst b div 12) \<rparr>"

text \<open>The monthly trend is resampled and its index reset as the monthly summary is, and raises as it does.\<close>

definition monthly_trend :: "enriched list \<Rightarrow> py_error + monthly_trend_row list" where
  "monthly_trend df =
     (if df = [] then Inl ValueError else Inr (map trend_row (resample_M df)))"

type_synonym chart_data =
  "(string \<times> fl) list \<times> (string \<times> fl \<times> fl) list \<times> (id_cell \<times> nat) list \<times> monthly_trend_row list"

definition prepare_chart_data :: "enriched list \<Rightarrow> py_error + chart_data" where
  "prepare_chart_data df =
     (case monthly_trend df of
        Inl e \<Rightarrow> Inl e
      | Inr trend \<Rightarrow>
          Inr (delay_by_city df, cost_time_city df, deliveries_per_vehicle_data df, trend))"

section \<open>The application\<close>

text \<open>
  What one run of \<open>main\<close> hands to the page: the five KPIs, their month over month
  deltas, and the four chart tables. The formatting of the tiles and the figures are
  not modelled.
\<close>

record output_bundle =
  out_kpis :: kpis
  out_mom_values :: mom_values
  out_chart_data :: chart_data

datatype page = Stopped | Dashboard output_bundle

text \<open>
  The part of \<open>main\<close> after the early return, on the loaded frame: the filters, the
  KPIs, the monthly summary with the deltas, then the chart data. An exception of the
  monthly summary or of the chart data leaves \<open>main\<close>.
\<close>

definition render :: "enriched list \<Rightarrow> string \<Rightarrow> string \<Rightarrow> py_error + output_bundle" where
  "render df selected_city selected_month =
     (let df1 = filter_city selected_city df;
          df2 = filter_month selected_month df1;
          kpis = calculate_kpis df2
      in case monthly_summary df2 of
           Inl e \<Rightarrow> Inl e
         | Inr summary \<Rightarrow>
             (case prepare_chart_data df2 of
                Inl e \<Rightarrow> Inl e
              | Inr charts \<Rightarrow>
                  Inr \<lparr> out_kpis = kpis,
                        out_mom_values = compute_mom_values summary,
                        out_chart_data = charts \<rparr>))"

text \<open>
  \<open>main\<close>: an exception of the loader leaves \<open>main\<close>; an empty frame makes it return
  before anything is computed; otherwise the dashboard is computed from the filtered
  frame, unless that raises. The result carries the messages that the loader has shown.
\<close>

definition main ::
  "raw_delivery read_csv \<Rightarrow> vehicle read_csv \<Rightarrow> string \<Rightarrow> string \<Rightarrow> py_error + (string list \<times> page)" where
  "main deliveries_csv fleet_csv selected_city selected_month =
     (case load_and_prepare_data deliveries_csv fleet_csv of
        Inl e \<Rightarrow> Inl e
      | Inr loaded \<Rightarrow>
          (if snd loaded = [] then Inr (fst loaded, Stopped)
           else (case render (snd loaded) selected_city selected_month of
                   Inl e \<Rightarrow> Inl e
                 | Inr b \<Rightarrow> Inr (fst loaded, Dashboard b))))"

section \<open>Memoisation\<close>

text \<open>
  \<open>load_and_prepare_data\<close>, \<open>calculate_kpis\<close> and \<open>prepare_chart_data\<close> are decorated with
  \<open>st.cache_data\<close>: a call with arguments seen before returns the stored result (and shows
  again the messages of the stored call), any other call runs the function and stores
  its result; a call that raises stores nothing. The loader has no argument, so its
  store has one slot. The store is the only state that one run of \<open>main\<close> leaves to the
  next.
\<close>

record cache =
  load_cache :: "(string list \<times> enriched list) option"
  kpis_cache :: "(enriched list \<times> kpis) list"
  chart_cache :: "(enriched list \<times> chart_data) list"

definition empty_cache :: cache where
  "empty_cache = \<lparr> load_cache = None, kpis_cache = [], chart_cache = [] \<rparr>"

definition cached :: "('a \<times> 'b) list \<Rightarrow> ('a \<Rightarrow> 'b) \<Rightarrow> 'a \<Rightarrow> 'b \<times> ('a \<times> 'b) list" where
  "cached entries f x =
     (case map_of entries x of
        Some y \<Rightarrow> (y, entries)
      | None \<Rightarrow> (f x, (x, f x) # entries))"

definition cached_raising ::
  "('a \<times> 'b) list \<Rightarrow> ('a \<Rightarrow> py_error + 'b) \<Rightarrow> 'a \<Rightarrow> (py_error + 'b) \<times> ('a \<times> 'b) list" where
  "cached_raising entries f x =
     (case map_of entries x of
        Some y \<Rightarrow> (Inr y, entries)
      | None \<Rightarrow>
          (case f x of
             Inl e \<Rightarrow> (Inl e, entries)
           | Inr y \<Rightarrow> (Inr y, (x, y) # entries)))"

definition cached_load_and_prepare_data ::
  "raw_delivery read_csv \<Rightarrow> vehicle read_csv \<Rightarrow> cache \<Rightarrow>
   (py_error + (string list \<times> enriched list)) \<times> cache" where
  "cached_load_and_prepare_data deliveries_csv fleet_csv c =
     (case load_cache c of
        Some v \<Rightarrow> (Inr v, c)
      | None \<Rightarrow>
          (case load_and_prepare_data deliveries_csv fleet_csv of
             Inl e \<Rightarrow> (Inl e, c)
           | Inr v \<Rightarrow> (Inr v, c\<lparr>load_cache := Some v\<rparr>)))"

definition main_cached ::
  "raw_delivery read_csv \<Rightarrow> vehicle read_csv \<Rightarrow> string \<Rightarrow> string \<Rightarrow> cache \<Rightarrow>
   (py_error + (string list \<times> page)) \<times> cache" where
  "main_cached deliveries_csv fleet_csv selected_city selected_month c =
     (let l = cached_load_and_prepare_data deliveries_csv fleet_csv c; c1 = snd l
      in case fst l of
           Inl e \<Rightarrow> (Inl e, c1)
         | Inr loaded \<Rightarrow>
             (if snd loaded = [] then (Inr (fst loaded, Stopped), c1)
              else let df2 = filter_month selected_month (filter_city selected_city (snd loaded));
                       k = cached (kpis_cache c1) calculate_kpis df2;
                       c2 = c1\<lparr>kpis_cache := snd k\<rparr>
                   in case monthly_summary df2 of
                        Inl e \<Rightarrow> (Inl e, c2)
                      | Inr summary \<Rightarrow>
                          (let cd = cached_raising (chart_cache c2) prepare_chart_data df2;
                               c3 = c2\<lparr>chart_cache := snd cd\<rparr>
                           in case fst cd of
                                Inl e \<Rightarrow> (Inl e, c3)
                              | Inr charts \<Rightarrow>
                                  (Inr (fst loaded,
                                        Dashboard \<lparr> out_kpis = fst k,
                                                    out_mom_values = compute_mom_values summary,
                                                    out_chart_data = charts \<rparr>),
                                   c3))))"

text \<open>The store after a sequence of runs on the same files, one selection for each run.\<close>

fun run_session ::
  "raw_delivery read_csv \<Rightarrow> vehicle read_csv \<Rightarrow> (string \<times> string) list \<Rightarrow> cache \<Rightarrow> cache" where
  "run_session deliveries_csv fleet_csv [] c = c"
| "run_session deliveries_csv fleet_csv (sel # sels) c =
     run_session deliveries_csv fleet_csv sels
       (snd (main_cached deliveries_csv fleet_csv (fst sel) (snd sel) c))"

text \<open>Every stored result is the result of its function on its arguments.\<close>

definition coherent :: "raw_delivery read_csv \<Rightarrow> vehicle read_csv \<Rightarrow> cache \<Rightarrow> bool" where
  "coherent deliveries_csv fleet_csv c =
     ((case load_cache c of
         None \<Rightarrow> True
       | Some v \<Rightarrow> load_and_prepare_data deliveries_csv fleet_csv = Inr v)
      \<and> list_all (\<lambda>e. snd e = calculate_kpis (fst e)) (kpis_cache c)
      \<and> list_all (\<lambda>e. prepare_chart_data (fst e) = Inr (snd e)) (chart_cache c))"

section \<open>Sample tables\<close>

definition sample_delivery ::
  "string \<Rightarrow> id_cell \<Rightarrow> nat \<Rightarrow> month \<Rightarrow> nat \<Rightarrow> string \<Rightarrow> rat \<Rightarrow> rat \<Rightarrow> bool \<Rightarrow> rat \<Rightarrow> rat \<Rightarrow> rat
   \<Rightarrow> raw_delivery" where
  "sample_delivery i v y m d c planned actual ot fuel other km =
     \<lparr> raw_delivery_id = i, raw_vehicle_id = v,
       raw_date = \<lparr> year = y, month = m, day = d \<rparr>, raw_city = c,
       raw_planned_minutes = Fin planned, raw_actual_minutes = Fin actual, raw_on_time = ot,
       raw_fuel_cost = Fin fuel, raw_other_cost = Fin other, raw_distance_km = Fin km \<rparr>"

text \<open>Two deliveries, on 2024-01-31 and 2024-02-01, with total costs 10 and 20 over 2 and 5 km.\<close>

definition sample_deliveries :: "raw_delivery list" where
  "sample_deliveries =
     [sample_delivery ''D1'' (Str_id ''V1'') 2024 Jan 31 ''Lagos'' 30 30 False 6 4 2,
      sample_delivery ''D2'' (Str_id ''V2'') 2024 Feb 1 ''Abuja'' 40 45 True 15 5 5]"

text \<open>The same with a third delivery on 2024-04-10: no delivery in March.\<close>

definition sample_deliveries_gap :: "raw_delivery list" where
  "sample_deliveries_gap =
     sample_deliveries @ [sample_delivery ''D3'' (Str_id ''V1'') 2024 Apr 10 ''Lagos'' 20 26 True 8 2 4]"

definition sample_fleet :: "vehicle list" where
  "sample_fleet = [\<lparr> fleet_vehicle_id = Str_id ''V1'', fleet_city = ''Lagos'' \<rparr>]"

text \<open>A registry that lists the vehicle \<open>V1\<close> twice.\<close>

definition sample_fleet_twice :: "vehicle list" where
  "sample_fleet_twice =
     [\<lparr> fleet_vehicle_id = Str_id ''V1'', fleet_city = ''Lagos'' \<rparr>,
      \<lparr> fleet_vehicle_id = Str_id ''V1'', fleet_city = ''Kano'' \<rparr>]"

text \<open>Two deliveries whose vehicle ids are the integers 1 and 2.\<close>

definition sample_deliveries_int :: "raw_delivery list" where
  "sample_deliveries_int =
     [sample_delivery ''D1'' (Int_id 1) 2024 Jan 31 ''Lagos'' 30 30 False 6 4 2,
      sample_delivery ''D2'' (Int_id 2) 2024 Feb 1 ''Abuja'' 40 45 True 15 5 5]"

definition sample_df :: "enriched list" where
  "sample_df = map prepare_row (merge_rows sample_deliveries sample_fleet)"

definition sample_df_gap :: "enriched list" where
  "sample_df_gap = map prepare_row (merge_rows sample_deliveries_gap sample_fleet)"

section \<open>Properties\<close>

subsection \<open>Auxiliary facts\<close>

lemma series_sum_Fin: "series_sum (map Fin qs) = Fin (sum_list qs)"
  by (induction qs) simp_all

lemma sample_df_eval:
  "sample_df =
     [\<lparr> delivery_id = ''D1'', vehicle_id = Str_id ''V1'',
         date = \<lparr> year = 2024, month = Jan, day = 31 \<rparr>, delivery_city = ''Lagos'',
         planned_minutes = Fin 30, actual_minutes = Fin 30, on_time = False,
         fuel_cost = Fin 6, other_cost = Fin 4, distance_km = Fin 2,
         vehicle_home_city = Some ''Lagos'', delay_minutes = Fin 0, total_cost = Fin 10,
         cost_per_km = Fin 5, fuel_cost_per_km = Fin 3, month_name = ''Jan 2024'' \<rparr>,
      \<lparr> delivery_id = ''D2'', vehicle_id = Str_id ''V2'',
         date = \<lparr> year = 2024, month = Feb, day = 1 \<rparr>, delivery_city = ''Abuja'',
         planned_minutes = Fin 40, actual_minutes = Fin 45, on_time = True,
         fuel_cost = Fin 15, other_cost = Fin 5, distance_km = Fin 5,
         vehicle_home_city = None, delay_minutes = Fin 5, total_cost = Fin 20,
         cost_per_km = Fin 4, fuel_cost_per_km = Fin 3, month_name = ''Feb 2024'' \<rparr>]"
  by (simp add: sample_df_def sample_deliveries_def sample_fleet_def sample_delivery_def
      merge_rows_def prepare_row_def fl_sub_def strftime_b_Y_def year_str_def digit_def)

lemma fl_percent: "fl_div (fl_mul (Fin 100) d) p = fl_mul (fl_div d p) (Fin 100)"
  by (cases d; cases p) (simp_all add: signed_inf_def)

lemma mom_of_short: "length col < 2 \<Longrightarrow> mom_of col = Fin 0"
  by (simp add: mom_of_def)

lemma mom_of_zero: "2 \<le> length col \<Longrightarrow> col ! (length col - 2) = Fin 0 \<Longrightarrow> mom_of col = Fin 0"
  by (simp add: mom_of_def)

lemma mom_of_nonzero:
  "2 \<le> length col \<Longrightarrow> col ! (length col - 2) \<noteq> Fin 0 \<Longrightarrow>
   mom_of col = fl_div (fl_mul (Fin 100) (fl_sub (col ! (length col - 1)) (col ! (length col - 2))))
                  (col ! (length col - 2))"
  by (simp add: mom_of_def fl_percent Let_def)

lemma mom_of_map:
  "mom_of (map c s) =
     (if length s < 2 then Fin 0
      else if c (s ! (length s - 2)) = Fin 0 then Fin 0
      else fl_div (fl_mul (Fin 100) (fl_sub (c (s ! (length s - 1))) (c (s ! (length s - 2)))))
                  (c (s ! (length s - 2))))"
  by (simp add: mom_of_def fl_percent Let_def)

lemma sample_resample:
  "resample_M sample_df = [(24288, [sample_df ! 0]), (24289, [sample_df ! 1])]"
  by (simp add: resample_M_def first_month_def last_month_def sample_df_eval month_index_def upt_rec)

lemma sample_summary:
  "monthly_summary sample_df = Inr
     [\<lparr> ms_date = 24288, ms_avg_delay = Fin 0, ms_on_time_rate = Fin 0, ms_cost_per_km = Fin 5,
         ms_deliveries_per_vehicle = Fin 1, ms_fuel_cost_ratio = Fin 60 \<rparr>,
      \<lparr> ms_date = 24289, ms_avg_delay = Fin 5, ms_on_time_rate = Fin 1, ms_cost_per_km = Fin 4,
         ms_deliveries_per_vehicle = Fin 1, ms_fuel_cost_ratio = Fin 75 \<rparr>]"
proof -
  have "sample_df \<noteq> []" by (simp add: sample_df_eval)
  then show ?thesis
    by (simp add: monthly_summary_def sample_resample summary_row_def)
       (simp add: sample_df_eval series_mean_def series_count_def of_count_def of_bool_cell_def
          row_fuel_cost_ratio_def)
qed

lemma sample_summary_jan:
  "monthly_summary (filter_month ''Jan 2024'' (filter_city ''All'' sample_df)) = Inr
     [\<lparr> ms_date = 24288, ms_avg_delay = Fin 0, ms_on_time_rate = Fin 0, ms_cost_per_km = Fin 5,
         ms_deliveries_per_vehicle = Fin 1, ms_fuel_cost_ratio = Fin 60 \<rparr>]"
  by (simp add: monthly_summary_def summary_row_def resample_M_def first_month_def last_month_def
        sample_df_eval month_index_def filter_month_def filter_city_def series_mean_def
        series_count_def of_count_def of_bool_cell_def row_fuel_cost_ratio_def)

lemma groupby_rows_Nil: "groupby_rows ord key [] = []"
  by (simp add: groupby_rows_def)

lemma calculate_kpis_Nil:
  "calculate_kpis [] =
     \<lparr> Average_Delay = NaN, On_Time_Rate = NaN, Cost_per_Kilometer = NaN,
       Deliveries_per_Vehicle = NaN, Fuel_Cost_Ratio = NaN \<rparr>"
  by (simp add: calculate_kpis_def series_mean_def series_count_def of_count_def
      groupby_count_def groupby_rows_Nil)

lemma monthly_summary_Nil: "monthly_summary [] = Inl ValueError"
  by (simp add: monthly_summary_def)

lemma render_no_rows:
  "filter_month selected_month (filter_city selected_city df) = [] \<Longrightarrow>
   render df selected_city selected_month = Inl ValueError"
  by (simp add: render_def monthly_summary_Nil)

lemma sample_no_rows: "filter_month ''Feb 2024'' (filter_city ''Lagos'' sample_df) = []"
  by (simp add: sample_df_eval filter_month_def filter_city_def)

lemma sample_load:
  "load_and_prepare_data (Csv sample_deliveries) (Csv sample_fleet) = Inr ([], sample_df)"
  by (simp add: load_and_prepare_data_def merge_left_def merge_raises_def sample_df_def
      sample_deliveries_def sample_fleet_def sample_delivery_def)

lemma filter_key_distinct:
  "distinct (map key xs) \<Longrightarrow> length (filter (\<lambda>v. key v = k) xs) \<le> 1"
  by (induction xs) (auto simp: filter_empty_conv image_iff)

lemma filter_key_find:
  assumes "distinct (map key xs)"
  shows "(case filter (\<lambda>v. key v = k) xs of [] \<Rightarrow> [(d, None)] | ms \<Rightarrow> map (\<lambda>v. (d, Some v)) ms)
         = [(d, find (\<lambda>v. key v = k) xs)]"
  using assms
proof (induction xs)
  case Nil
  then show ?case by simp
next
  case (Cons x xs)
  show ?case
  proof (cases "key x = k")
    case True
    with Cons.prems have "filter (\<lambda>v. key v = k) xs = []"
      by (auto simp: filter_empty_conv image_iff)
    with True show ?thesis by simp
  next
    case False
    with Cons show ?thesis by simp
  qed
qed

lemma merge_rows_distinct:
  assumes "distinct (map fleet_vehicle_id fleet_df)"
  shows "merge_rows deliveries_df fleet_df =
           map (\<lambda>d. (d, find (\<lambda>v. fleet_vehicle_id v = raw_vehicle_id d) fleet_df)) deliveries_df"
  unfolding merge_rows_def
  by (induction deliveries_df) (simp_all add: filter_key_find [OF assms])

lemma find_None_key: "find (\<lambda>v. key v = k) xs = None \<longleftrightarrow> k \<notin> key ` set xs"
  by (auto simp: find_None_iff)

lemma month_number_less: "month_number m < 12"
  by (cases m) simp_all

lemma month_number_inj: "month_number m1 = month_number m2 \<longleftrightarrow> m1 = m2"
  by (cases m1; cases m2) simp_all

lemma month_index_eq_iff:
  "month_index d1 = month_index d2 \<longleftrightarrow> year d1 = year d2 \<and> month d1 = month d2"
proof -
  have lt: "month_number (month d1) < 12" "month_number (month d2) < 12"
    by (rule month_number_less)+
  have "12 * year d1 + month_number (month d1) = 12 * year d2 + month_number (month d2)
        \<longleftrightarrow> year d1 = year d2 \<and> month_number (month d1) = month_number (month d2)"
    using lt by presburger
  then show ?thesis
    by (simp add: month_index_def month_number_inj)
qed

lemma month_bounds:
  assumes "r \<in> set df"
  shows "first_month df \<le> month_index (date r)" and "month_index (date r) \<le> last_month df"
  using assms by (simp_all add: first_month_def last_month_def)

lemma first_month_attained:
  assumes "df \<noteq> []"
  shows "\<exists>r \<in> set df. month_index (date r) = first_month df"
proof -
  let ?K = "set (map (\<lambda>r. month_index (date r)) df)"
  have "finite ?K" "?K \<noteq> {}" using assms by simp_all
  then have "Min ?K \<in> ?K" by (rule Min_in)
  then show ?thesis by (auto simp: first_month_def)
qed

lemma last_month_attained:
  assumes "df \<noteq> []"
  shows "\<exists>r \<in> set df. month_index (date r) = last_month df"
proof -
  let ?K = "set (map (\<lambda>r. month_index (date r)) df)"
  have "finite ?K" "?K \<noteq> {}" using assms by simp_all
  then have "Max ?K \<in> ?K" by (rule Max_in)
  then show ?thesis by (auto simp: last_month_def)
qed

lemma first_le_last:
  assumes "df \<noteq> []"
  shows "first_month df \<le> last_month df"
proof -
  from first_month_attained [OF assms]
  obtain r where r: "r \<in> set df" "month_index (date r) = first_month df" by blast
  from month_bounds(2) [OF r(1)] r(2) show ?thesis by simp
qed

lemma resample_keys:
  "map fst (resample_M df) = (if df = [] then [] else [first_month df ..< Suc (last_month df)])"
  by (simp add: resample_M_def comp_def)

lemma resample_bucket:
  "b \<in> set (resample_M df) \<Longrightarrow> snd b = filter (\<lambda>r. month_index (date r) = fst b) df"
  by (auto simp: resample_M_def split: if_splits)

lemma resample_member:
  assumes "r \<in> set df"
  shows "(month_index (date r), filter (\<lambda>x. month_index (date x) = month_index (date r)) df)
           \<in> set (resample_M df)"
proof -
  from assms have "df \<noteq> []" by auto
  moreover have "month_index (date r) \<in> set [first_month df ..< Suc (last_month df)]"
    using month_bounds [OF assms] by (simp del: upt_Suc)
  ultimately show ?thesis
    by (simp add: resample_M_def image_iff del: upt_Suc)
qed

lemma same_bucket_iff:
  assumes "r1 \<in> set df" "r2 \<in> set df"
  shows "(\<exists>b \<in> set (resample_M df). r1 \<in> set (snd b) \<and> r2 \<in> set (snd b))
         \<longleftrightarrow> month_index (date r1) = month_index (date r2)"
proof
  assume "\<exists>b \<in> set (resample_M df). r1 \<in> set (snd b) \<and> r2 \<in> set (snd b)"
  then obtain b where b: "b \<in> set (resample_M df)" "r1 \<in> set (snd b)" "r2 \<in> set (snd b)"
    by blast
  from resample_bucket [OF b(1)] b(2,3) show "month_index (date r1) = month_index (date r2)"
    by simp
next
  assume eq: "month_index (date r1) = month_index (date r2)"
  let ?b = "(month_index (date r1), filter (\<lambda>x. month_index (date x) = month_index (date r1)) df)"
  have "?b \<in> set (resample_M df)" by (rule resample_member [OF assms(1)])
  moreover have "r1 \<in> set (snd ?b)" "r2 \<in> set (snd ?b)" using assms eq by simp_all
  ultimately show "\<exists>b \<in> set (resample_M df). r1 \<in> set (snd b) \<and> r2 \<in> set (snd b)"
    by blast
qed

lemma trend_dates: "map mt_date (map trend_row bs) = map fst bs"
  by (simp add: trend_row_def comp_def)

lemma summary_dates: "map ms_date (map summary_row bs) = map fst bs"
  by (simp add: summary_row_def comp_def)

lemma fl_sub_NaN: "fl_sub x NaN = NaN"
  by (cases x) (simp_all add: fl_sub_def)

lemma fl_div_NaN: "fl_div x NaN = NaN"
  by (cases x) simp_all

lemma mom_of_prev_NaN:
  "2 \<le> length col \<Longrightarrow> col ! (length col - 2) = NaN \<Longrightarrow> mom_of col = NaN"
  by (simp add: mom_of_def Let_def fl_sub_NaN fl_div_NaN)

lemma mom_of_prev_zero:
  "2 \<le> length col \<Longrightarrow> col ! (length col - 2) = Fin 0 \<Longrightarrow> mom_of col = Fin 0"
  by (simp add: mom_of_def)

lemma resample_empty_bucket:
  assumes "p \<in> set (resample_M df)" and "\<forall>r \<in> set df. month_index (date r) \<noteq> fst p"
  shows "snd p = []"
  using resample_bucket [OF assms(1)] assms(2) by (simp add: filter_empty_conv)

lemma resample_length: "df \<noteq> [] \<Longrightarrow> length (resample_M df) = Suc (last_month df) - first_month df"
  by (simp add: resample_M_def del: upt_Suc)

lemma resample_prev:
  assumes "df \<noteq> []" and "first_month df < last_month df"
  shows "resample_M df ! (length (resample_M df) - 2) =
           (last_month df - 1, filter (\<lambda>r. month_index (date r) = last_month df - 1) df)"
proof -
  let ?lo = "first_month df" and ?hi = "last_month df"
  have i: "length (resample_M df) - 2 < length [?lo ..< Suc ?hi]"
    using assms by (simp add: resample_length del: upt_Suc)
  have "[?lo ..< Suc ?hi] ! (length (resample_M df) - 2) = ?hi - 1"
    using assms i by (simp add: resample_length del: upt_Suc)
  with i assms(1) show ?thesis
    by (simp add: resample_M_def del: upt_Suc)
qed

lemma sample_gap_months:
  "map (\<lambda>r. month_index (date r)) sample_df_gap = [24288, 24289, 24291]"
  by (simp add: sample_df_gap_def sample_deliveries_gap_def sample_deliveries_def sample_fleet_def
      sample_delivery_def merge_rows_def prepare_row_def month_index_def)

lemma sample_gap_bounds:
  "first_month sample_df_gap = 24288" "last_month sample_df_gap = 24291"
  by (simp_all add: first_month_def last_month_def sample_gap_months)

lemma coherent_empty: "coherent deliveries_csv fleet_csv empty_cache"
  by (simp add: coherent_def empty_cache_def)

lemma cached_result:
  assumes "list_all (\<lambda>e. snd e = f (fst e)) entries"
  shows "fst (cached entries f x) = f x"
    and "list_all (\<lambda>e. snd e = f (fst e)) (snd (cached entries f x))"
proof -
  show "fst (cached entries f x) = f x"
  proof (cases "map_of entries x")
    case None
    then show ?thesis by (simp add: cached_def)
  next
    case (Some y)
    then have "(x, y) \<in> set entries" by (rule map_of_SomeD)
    with assms have "y = f x" by (auto simp: list_all_iff)
    with Some show ?thesis by (simp add: cached_def)
  qed
  show "list_all (\<lambda>e. snd e = f (fst e)) (snd (cached entries f x))"
    using assms by (cases "map_of entries x") (simp_all add: cached_def)
qed

lemma cached_raising_result:
  assumes "list_all (\<lambda>e. f (fst e) = Inr (snd e)) entries"
  shows "fst (cached_raising entries f x) = f x"
    and "list_all (\<lambda>e. f (fst e) = Inr (snd e)) (snd (cached_raising entries f x))"
proof -
  show "fst (cached_raising entries f x) = f x"
  proof (cases "map_of entries x")
    case None
    then show ?thesis by (simp add: cached_raising_def split: sum.splits)
  next
    case (Some y)
    then have "(x, y) \<in> set entries" by (rule map_of_SomeD)
    with assms have "f x = Inr y" by (auto simp: list_all_iff)
    with Some show ?thesis by (simp add: cached_raising_def)
  qed
  show "list_all (\<lambda>e. f (fst e) = Inr (snd e)) (snd (cached_raising entries f x))"
    using assms
    by (cases "map_of entries x") (simp_all add: cached_raising_def split: sum.splits)
qed

lemma cached_load_result:
  assumes "coherent deliveries_csv fleet_csv c"
  shows "fst (cached_load_and_prepare_data deliveries_csv fleet_csv c)
           = load_and_prepare_data deliveries_csv fleet_csv"
    and "coherent deliveries_csv fleet_csv (snd (cached_load_and_prepare_data deliveries_csv fleet_csv c))"
  using assms
  by (auto simp: cached_load_and_prepare_data_def coherent_def split: option.splits sum.splits)

lemma main_cached_result:
  assumes "coherent deliveries_csv fleet_csv c"
  shows "fst (main_cached deliveries_csv fleet_csv selected_city selected_month c)
           = main deliveries_csv fleet_csv selected_city selected_month"
    and "coherent deliveries_csv fleet_csv
           (snd (main_cached deliveries_csv fleet_csv selected_city selected_month c))"
proof -
  let ?l = "cached_load_and_prepare_data deliveries_csv fleet_csv c"
  have l: "fst ?l = load_and_prepare_data deliveries_csv fleet_csv"
    and c1: "coherent deliveries_csv fleet_csv (snd ?l)"
    by (rule cached_load_result [OF assms])+
  from c1 have k: "list_all (\<lambda>e. snd e = calculate_kpis (fst e)) (kpis_cache (snd ?l))"
    and d: "list_all (\<lambda>e. prepare_chart_data (fst e) = Inr (snd e)) (chart_cache (snd ?l))"
    by (simp_all add: coherent_def)
  show "fst (main_cached deliveries_csv fleet_csv selected_city selected_month c)
           = main deliveries_csv fleet_csv selected_city selected_month"
    by (simp add: main_cached_def main_def render_def Let_def l
        cached_result(1) [OF k] cached_raising_result(1) [OF d] split: sum.splits)
  show "coherent deliveries_csv fleet_csv
           (snd (main_cached deliveries_csv fleet_csv selected_city selected_month c))"
    using c1 cached_result(2) [OF k] cached_raising_result(2) [OF d]
    by (simp add: main_cached_def Let_def coherent_def split: sum.splits)
qed

lemma run_session_coherent:
  "coherent deliveries_csv fleet_csv c \<Longrightarrow>
   coherent deliveries_csv fleet_csv (run_session deliveries_csv fleet_csv sels c)"
  by (induction sels arbitrary: c) (simp_all add: main_cached_result(2))

subsection \<open>The headline cost per kilometre\<close>

text \<open>
  C1. The KPI \<open>Cost per Kilometer\<close> of \<open>calculate_kpis\<close> is the sum of the column
  \<open>total_cost\<close> over the sum of the column \<open>distance_km\<close>, for every table. When the cells
  of both columns are finite and the distances do not sum to zero it is the quotient of
  the two rational sums; for two rows with total costs 10 and 20 over distances 2 and 5
  it is 30/7, and not 9/2, the mean of the two per-row ratios.
\<close>

theorem cost_per_kilometer_ratio_of_sums:
  "Cost_per_Kilometer (calculate_kpis df) =
     fl_div (series_sum (map total_cost df)) (series_sum (map distance_km df))
   \<and> (map total_cost df = map Fin costs \<and> map distance_km df = map Fin kms \<and> sum_list kms \<noteq> 0
        \<longrightarrow> Cost_per_Kilometer (calculate_kpis df) = Fin (sum_list costs / sum_list kms))
   \<and> (map total_cost df = [Fin 10, Fin 20] \<and> map distance_km df = [Fin 2, Fin 5]
        \<longrightarrow> Cost_per_Kilometer (calculate_kpis df) = Fin (30 / 7)
          \<and> Cost_per_Kilometer (calculate_kpis df) \<noteq> Fin (9 / 2))"
proof -
  have general: "Cost_per_Kilometer (calculate_kpis df) =
     fl_div (series_sum (map total_cost df)) (series_sum (map distance_km df))"
    by (simp add: calculate_kpis_def)
  have finite: "Cost_per_Kilometer (calculate_kpis df) = Fin (sum_list costs / sum_list kms)"
    if "map total_cost df = map Fin costs" "map distance_km df = map Fin kms" "sum_list kms \<noteq> 0"
    using that by (simp add: general series_sum_Fin)
  have two: "Cost_per_Kilometer (calculate_kpis df) = Fin (30 / 7)
          \<and> Cost_per_Kilometer (calculate_kpis df) \<noteq> Fin (9 / 2)"
    if "map total_cost df = [Fin 10, Fin 20]" "map distance_km df = [Fin 2, Fin 5]"
    using that by (simp add: general)
  show ?thesis
  proof (intro conjI impI)
    show "Cost_per_Kilometer (calculate_kpis df) =
      fl_div (series_sum (map total_cost df)) (series_sum (map distance_km df))"
      by (rule general)
  next
    assume "map total_cost df = map Fin costs \<and> map distance_km df = map Fin kms \<and> sum_list kms \<noteq> 0"
    then show "Cost_per_Kilometer (calculate_kpis df) = Fin (sum_list costs / sum_list kms)"
      using finite by simp
  next
    assume h: "map total_cost df = [Fin 10, Fin 20] \<and> map distance_km df = [Fin 2, Fin 5]"
    then show "Cost_per_Kilometer (calculate_kpis df) = Fin (30 / 7)"
      using two by simp
    from h show "Cost_per_Kilometer (calculate_kpis df) \<noteq> Fin (9 / 2)"
      using two by simp
  qed
qed

text \<open>
  On the two sample deliveries, as the loader prepares them: the mean of the column
  \<open>cost_per_km\<close> is 9/2, the KPI is 30/7.
\<close>

theorem cost_per_kilometer_witness:
  "map total_cost sample_df = [Fin 10, Fin 20] \<and> map distance_km sample_df = [Fin 2, Fin 5]
   \<and> series_mean (map cost_per_km sample_df) = Fin (9 / 2)
   \<and> Cost_per_Kilometer (calculate_kpis sample_df) = Fin (30 / 7)
   \<and> Cost_per_Kilometer (calculate_kpis sample_df) \<noteq> Fin (9 / 2)"
proof -
  have h: "map total_cost sample_df = [Fin 10, Fin 20] \<and> map distance_km sample_df = [Fin 2, Fin 5]"
    by (simp add: sample_df_eval)
  have m: "series_mean (map cost_per_km sample_df) = Fin (9 / 2)"
    by (simp add: sample_df_eval series_mean_def series_count_def of_count_def)
  from cost_per_kilometer_ratio_of_sums [of sample_df] h
  have "Cost_per_Kilometer (calculate_kpis sample_df) = Fin (30 / 7)
          \<and> Cost_per_Kilometer (calculate_kpis sample_df) \<noteq> Fin (9 / 2)"
    by simp
  with h m show ?thesis by simp
qed

subsection \<open>Filters\<close>

text \<open>
  C7. The city filter and the month filter commute on every table and for every pair
  of selections, and the selection \<open>All\<close> removes no row on its dimension.
\<close>

theorem filters_commute:
  "filter_month m (filter_city c df) = filter_city c (filter_month m df)
   \<and> filter_city ''All'' df = df \<and> filter_month ''All'' df = df"
  by (auto simp: filter_city_def filter_month_def intro: filter_cong)

subsection \<open>Load failures\<close>

text \<open>
  C6, as stated: when a source is unreadable or missing, the loader signals the failure
  and \<open>main\<close> returns early with an error state. It fails for a file that is there but
  cannot be read: only \<open>FileNotFoundError\<close> is caught, so the exception of the read leaves
  the loader and \<open>main\<close>, no message is shown and \<open>main\<close> does not return.
\<close>

theorem unreadable_file_raises:
  "load_and_prepare_data (Csv sample_deliveries) OtherReadError = Inl ReadError
   \<and> main (Csv sample_deliveries) OtherReadError ''All'' ''All'' = Inl ReadError
   \<and> main OtherReadError (Csv sample_fleet) ''All'' ''All'' = Inl ReadError
   \<and> main (Csv sample_deliveries) OtherReadError ''All'' ''All''
       \<noteq> Inr ([missing_files_message], Stopped)"
  by (simp add: main_def load_and_prepare_data_def)

text \<open>
  C6, amended: when the first read that fails raises \<open>FileNotFoundError\<close> (the deliveries
  file is missing, or it is read and the fleet file is missing), the loader shows the
  message about the missing files and returns the empty frame, and \<open>main\<close> returns before
  any KPI, trend or breakdown is computed. When the first read that fails raises another
  exception, that exception leaves the loader and \<open>main\<close>.
\<close>

theorem missing_file_stops:
  "(deliveries_csv = FileNotFoundError \<or> is_Csv deliveries_csv \<and> fleet_csv = FileNotFoundError
      \<longrightarrow> load_and_prepare_data deliveries_csv fleet_csv = Inr ([missing_files_message], [])
        \<and> main deliveries_csv fleet_csv selected_city selected_month
            = Inr ([missing_files_message], Stopped))
   \<and> (deliveries_csv = OtherReadError \<or> is_Csv deliveries_csv \<and> fleet_csv = OtherReadError
      \<longrightarrow> load_and_prepare_data deliveries_csv fleet_csv = Inl ReadError
        \<and> main deliveries_csv fleet_csv selected_city selected_month = Inl ReadError)"
  by (cases deliveries_csv; cases fleet_csv) (simp_all add: main_def load_and_prepare_data_def)

theorem missing_file_stops_witness:
  "load_and_prepare_data FileNotFoundError (Csv sample_fleet) = Inr ([missing_files_message], [])
   \<and> main FileNotFoundError (Csv sample_fleet) ''All'' ''All'' = Inr ([missing_files_message], Stopped)
   \<and> is_Csv (Csv sample_deliveries)
   \<and> main (Csv sample_deliveries) FileNotFoundError ''Lagos'' ''All''
        = Inr ([missing_files_message], Stopped)
   \<and> main (Csv sample_deliveries) OtherReadError ''All'' ''All'' = Inl ReadError"
proof -
  from missing_file_stops [of FileNotFoundError "Csv sample_fleet" "''All''" "''All''"]
  have a: "load_and_prepare_data FileNotFoundError (Csv sample_fleet) = Inr ([missing_files_message], [])
           \<and> main FileNotFoundError (Csv sample_fleet) ''All'' ''All''
               = Inr ([missing_files_message], Stopped)"
    by simp
  from missing_file_stops [of "Csv sample_deliveries" FileNotFoundError "''Lagos''" "''All''"]
  have b: "main (Csv sample_deliveries) FileNotFoundError ''Lagos'' ''All''
             = Inr ([missing_files_message], Stopped)"
    by simp
  from missing_file_stops [of "Csv sample_deliveries" OtherReadError "''All''" "''All''"]
  have c: "main (Csv sample_deliveries) OtherReadError ''All'' ''All'' = Inl ReadError"
    by simp
  from a b c show ?thesis by simp
qed

text \<open>
  C10, as stated: a deliveries file without rows cannot be told at the caller from a
  missing or unreadable source. It fails for an unreadable source: the read raises, and
  \<open>main\<close> is left by the exception where, for a deliveries file without rows, it returns.
\<close>

theorem unreadable_differs_from_empty:
  "load_and_prepare_data OtherReadError (Csv sample_fleet) = Inl ReadError
   \<and> load_and_prepare_data (Csv []) (Csv sample_fleet) = Inr ([], [])
   \<and> main OtherReadError (Csv sample_fleet) ''All'' ''All''
       \<noteq> main (Csv []) (Csv sample_fleet) ''All'' ''All''"
  by (simp add: main_def load_and_prepare_data_def merge_left_def merge_raises_def merge_rows_def)

text \<open>
  C10, amended: the loader answers a missing file with the empty frame, which is also
  what it returns for a deliveries file without rows; \<open>main\<close> tests only whether the frame
  is empty, so it stops without a dashboard in both cases. The two differ in the message
  that the loader shows, not in the frame it returns.
\<close>

theorem empty_deliveries_like_missing:
  "snd (projr (load_and_prepare_data (Csv []) (Csv fleet_df)))
     = snd (projr (load_and_prepare_data FileNotFoundError fleet_csv))
   \<and> load_and_prepare_data (Csv []) (Csv fleet_df) = Inr ([], [])
   \<and> load_and_prepare_data FileNotFoundError fleet_csv = Inr ([missing_files_message], [])
   \<and> load_and_prepare_data (Csv deliveries_df) FileNotFoundError = Inr ([missing_files_message], [])
   \<and> main (Csv []) (Csv fleet_df) selected_city selected_month = Inr ([], Stopped)
   \<and> main FileNotFoundError fleet_csv selected_city selected_month
        = Inr ([missing_files_message], Stopped)
   \<and> main (Csv deliveries_df) FileNotFoundError selected_city selected_month
        = Inr ([missing_files_message], Stopped)"
  by (simp add: main_def load_and_prepare_data_def merge_left_def merge_raises_def merge_rows_def)

subsection \<open>Month over month deltas\<close>

text \<open>
  C2, as stated: for every filtered table the delta is 0 when the monthly summary has
  fewer than two buckets. It fails for the filtered table without rows: the monthly
  summary raises, \<open>main\<close> is left by the exception and no delta is computed.
\<close>

theorem mom_delta_no_rows:
  "filter_month ''Feb 2024'' (filter_city ''Lagos'' sample_df) = []
   \<and> monthly_summary (filter_month ''Feb 2024'' (filter_city ''Lagos'' sample_df)) = Inl ValueError
   \<and> render sample_df ''Lagos'' ''Feb 2024'' = Inl ValueError"
  by (simp add: sample_no_rows monthly_summary_Nil render_no_rows)

text \<open>
  C2, amended: for every table and pair of selections that leave at least one row, and
  for each of the five columns, the monthly summary of the filtered table exists, and the
  delta that \<open>main\<close> computes from it is 0 when the summary has fewer than two buckets, 0
  when the value of the last but one bucket is 0, and otherwise 100 times the difference
  of the last and the last but one value, over the last but one value.
\<close>

theorem mom_delta:
  assumes "(m, c) \<in> {(mom_avg_delay, ms_avg_delay), (mom_on_time_rate, ms_on_time_rate),
                      (mom_cost_per_km, ms_cost_per_km),
                      (mom_deliveries_per_vehicle, ms_deliveries_per_vehicle),
                      (mom_fuel_cost_ratio, ms_fuel_cost_ratio)}"
    and "filter_month selected_month (filter_city selected_city df) \<noteq> []"
  shows "\<exists>s b. monthly_summary (filter_month selected_month (filter_city selected_city df)) = Inr s
           \<and> render df selected_city selected_month = Inr b
           \<and> (let delta = m (out_mom_values b);
                   prev = c (s ! (length s - 2));
                   curr = c (s ! (length s - 1))
               in (length s < 2 \<longrightarrow> delta = Fin 0)
                \<and> (2 \<le> length s \<and> prev = Fin 0 \<longrightarrow> delta = Fin 0)
                \<and> (2 \<le> length s \<and> prev \<noteq> Fin 0
                     \<longrightarrow> delta = fl_div (fl_mul (Fin 100) (fl_sub curr prev)) prev))"
proof -
  let ?df2 = "filter_month selected_month (filter_city selected_city df)"
  define s where "s = map summary_row (resample_M ?df2)"
  define b where "b = \<lparr> out_kpis = calculate_kpis ?df2,
                        out_mom_values = compute_mom_values s,
                        out_chart_data = (delay_by_city ?df2, cost_time_city ?df2,
                                          deliveries_per_vehicle_data ?df2,
                                          map trend_row (resample_M ?df2)) \<rparr>"
  have s: "monthly_summary ?df2 = Inr s"
    using assms(2) by (simp add: monthly_summary_def s_def)
  have r: "render df selected_city selected_month = Inr b"
    using assms(2)
    by (simp add: render_def Let_def s b_def prepare_chart_data_def monthly_trend_def)
  have "m (out_mom_values b) = mom_of (map c s)"
    using assms(1) by (auto simp: b_def compute_mom_values_def)
  then have "let delta = m (out_mom_values b);
                 prev = c (s ! (length s - 2));
                 curr = c (s ! (length s - 1))
             in (length s < 2 \<longrightarrow> delta = Fin 0)
              \<and> (2 \<le> length s \<and> prev = Fin 0 \<longrightarrow> delta = Fin 0)
              \<and> (2 \<le> length s \<and> prev \<noteq> Fin 0
                   \<longrightarrow> delta = fl_div (fl_mul (Fin 100) (fl_sub curr prev)) prev)"
    by (simp add: Let_def mom_of_map)
  with s r show ?thesis by blast
qed

text \<open>
  On the two sample deliveries the average delay goes from 0 in January to 5 in
  February, and its delta is 0; the cost per kilometre goes from 5 to 4, a delta of -20;
  with the month filter on January there is one bucket, and the delta is 0.
\<close>

theorem mom_delta_witness:
  "filter_month ''All'' (filter_city ''All'' sample_df) \<noteq> []
   \<and> filter_month ''Jan 2024'' (filter_city ''All'' sample_df) \<noteq> []
   \<and> (\<exists>s b. monthly_summary sample_df = Inr s \<and> render sample_df ''All'' ''All'' = Inr b
          \<and> length s = 2
          \<and> ms_avg_delay (s ! 0) = Fin 0 \<and> ms_avg_delay (s ! 1) = Fin 5
          \<and> mom_avg_delay (out_mom_values b) = Fin 0
          \<and> ms_cost_per_km (s ! 0) = Fin 5 \<and> ms_cost_per_km (s ! 1) = Fin 4
          \<and> mom_cost_per_km (out_mom_values b) = Fin (- 20))
   \<and> (\<exists>s b. monthly_summary (filter_month ''Jan 2024'' (filter_city ''All'' sample_df)) = Inr s
          \<and> render sample_df ''All'' ''Jan 2024'' = Inr b
          \<and> length s = 1
          \<and> mom_cost_per_km (out_mom_values b) = Fin 0)"
proof -
  have all: "filter_month ''All'' (filter_city ''All'' sample_df) = sample_df"
    by (simp add: filter_month_def filter_city_def)
  have ne: "filter_month ''All'' (filter_city ''All'' sample_df) \<noteq> []"
    unfolding all by (simp add: sample_df_eval)
  have ne_jan: "filter_month ''Jan 2024'' (filter_city ''All'' sample_df) \<noteq> []"
    by (simp add: filter_month_def filter_city_def sample_df_eval)
  have in1: "(mom_avg_delay, ms_avg_delay) \<in> {(mom_avg_delay, ms_avg_delay), (mom_on_time_rate, ms_on_time_rate),
                      (mom_cost_per_km, ms_cost_per_km),
                      (mom_deliveries_per_vehicle, ms_deliveries_per_vehicle),
                      (mom_fuel_cost_ratio, ms_fuel_cost_ratio)}"
    by simp
  have in2: "(mom_cost_per_km, ms_cost_per_km) \<in> {(mom_avg_delay, ms_avg_delay), (mom_on_time_rate, ms_on_time_rate),
                      (mom_cost_per_km, ms_cost_per_km),
                      (mom_deliveries_per_vehicle, ms_deliveries_per_vehicle),
                      (mom_fuel_cost_ratio, ms_fuel_cost_ratio)}"
    by simp
  from mom_delta [OF in1 ne] obtain b where
    b: "render sample_df ''All'' ''All'' = Inr b"
    and a: "mom_avg_delay (out_mom_values b) = Fin 0"
    by (auto simp: all sample_summary Let_def)
  from mom_delta [OF in2 ne] b
  have c: "mom_cost_per_km (out_mom_values b) = Fin (- 20)"
    by (auto simp: all sample_summary Let_def fl_sub_def)
  from mom_delta [OF in2 ne_jan] obtain b' where
    b': "render sample_df ''All'' ''Jan 2024'' = Inr b'"
    and d: "mom_cost_per_km (out_mom_values b') = Fin 0"
    by (auto simp: sample_summary_jan Let_def)
  from ne ne_jan a b c b' d show ?thesis
    by (simp add: sample_summary sample_summary_jan)
qed

subsection \<open>A selection without rows\<close>

text \<open>
  C4, as stated: when the selection matches no row, every KPI is undefined, nothing is
  raised and the output bundle is complete. It fails at the monthly summary: on the
  sample table with the city Lagos and the month February 2024, which no row has both,
  \<open>main\<close> is left by \<open>ValueError\<close> and produces no bundle.
\<close>

theorem no_rows_main_raises:
  "load_and_prepare_data (Csv sample_deliveries) (Csv sample_fleet) = Inr ([], sample_df)
   \<and> filter_month ''Feb 2024'' (filter_city ''Lagos'' sample_df) = []
   \<and> main (Csv sample_deliveries) (Csv sample_fleet) ''Lagos'' ''Feb 2024'' = Inl ValueError"
proof -
  have "sample_df \<noteq> []"
    by (simp add: sample_df_eval)
  then show ?thesis
    by (simp add: main_def sample_load sample_no_rows render_no_rows)
qed

text \<open>
  C4, amended: when the two filters leave no row, the filtered row set is empty and
  \<open>calculate_kpis\<close> raises nothing on it: each of the five KPIs is NaN.
\<close>

theorem no_rows_kpis_undefined:
  assumes "filter_month selected_month (filter_city selected_city df) = []"
  shows "calculate_kpis (filter_month selected_month (filter_city selected_city df)) =
           \<lparr> Average_Delay = NaN, On_Time_Rate = NaN, Cost_per_Kilometer = NaN,
             Deliveries_per_Vehicle = NaN, Fuel_Cost_Ratio = NaN \<rparr>"
  using assms by (simp add: calculate_kpis_Nil)

theorem no_rows_kpis_undefined_witness:
  "filter_month ''Feb 2024'' (filter_city ''Lagos'' sample_df) = []
   \<and> calculate_kpis (filter_month ''Feb 2024'' (filter_city ''Lagos'' sample_df)) =
           \<lparr> Average_Delay = NaN, On_Time_Rate = NaN, Cost_per_Kilometer = NaN,
             Deliveries_per_Vehicle = NaN, Fuel_Cost_Ratio = NaN \<rparr>"
  using no_rows_kpis_undefined [OF sample_no_rows] sample_no_rows by simp

subsection \<open>The join\<close>

text \<open>
  C3, as stated: the joined frame has as many rows as the deliveries table, whatever the
  registry holds. It fails when the registry lists a vehicle twice: the two sample
  deliveries joined with a registry that lists \<open>V1\<close> twice give three rows. It also fails
  when the vehicle ids of the deliveries are integers and those of the registry are
  strings: the join raises, and no row is kept.
\<close>

theorem left_join_loses_row_count:
  "length (snd (projr (load_and_prepare_data (Csv sample_deliveries) (Csv sample_fleet_twice))))
     \<noteq> length sample_deliveries
   \<and> distinct (map fleet_vehicle_id sample_fleet)
   \<and> load_and_prepare_data (Csv sample_deliveries_int) (Csv sample_fleet) = Inl ValueError"
  by (simp add: load_and_prepare_data_def merge_left_def merge_raises_def merge_rows_def
      sample_deliveries_def sample_deliveries_int_def sample_fleet_twice_def sample_fleet_def
      sample_delivery_def)

text \<open>
  C3, amended: when no \<open>vehicle_id\<close> occurs twice in the registry and the join accepts the
  two \<open>vehicle_id\<close> columns (not integers on one side and strings on the other, with rows
  on both sides), the loader returns exactly one row for each delivery, in the order of
  the deliveries table, and the row of a delivery whose \<open>vehicle_id\<close> is not in the
  registry has no \<open>vehicle_home_city\<close>.
\<close>

theorem left_join_row_count:
  assumes "distinct (map fleet_vehicle_id fleet_df)"
    and "\<not> merge_raises (map raw_vehicle_id deliveries_df) (map fleet_vehicle_id fleet_df)"
  shows "\<exists>rows. load_and_prepare_data (Csv deliveries_df) (Csv fleet_df) = Inr ([], rows)
           \<and> length rows = length deliveries_df
           \<and> (\<forall>i < length deliveries_df.
                 delivery_id (rows ! i) = raw_delivery_id (deliveries_df ! i)
               \<and> vehicle_id (rows ! i) = raw_vehicle_id (deliveries_df ! i)
               \<and> (raw_vehicle_id (deliveries_df ! i) \<notin> fleet_vehicle_id ` set fleet_df
                    \<longrightarrow> vehicle_home_city (rows ! i) = None))"
proof -
  let ?rows = "map prepare_row (merge_rows deliveries_df fleet_df)"
  have load: "load_and_prepare_data (Csv deliveries_df) (Csv fleet_df) = Inr ([], ?rows)"
    using assms(2) by (simp add: load_and_prepare_data_def merge_left_def)
  have rows: "?rows = map (\<lambda>d. prepare_row (d, find (\<lambda>v. fleet_vehicle_id v = raw_vehicle_id d) fleet_df))
                        deliveries_df"
    by (simp add: merge_rows_distinct [OF assms(1)] comp_def)
  have len: "length ?rows = length deliveries_df"
    by (simp add: rows)
  have each: "delivery_id (?rows ! i) = raw_delivery_id (deliveries_df ! i)
               \<and> vehicle_id (?rows ! i) = raw_vehicle_id (deliveries_df ! i)
               \<and> (raw_vehicle_id (deliveries_df ! i) \<notin> fleet_vehicle_id ` set fleet_df
                    \<longrightarrow> vehicle_home_city (?rows ! i) = None)"
    if "i < length deliveries_df" for i
    using that by (simp add: rows prepare_row_def Let_def find_None_key [symmetric])
  from load len each show ?thesis by blast
qed

theorem left_join_row_count_witness:
  "distinct (map fleet_vehicle_id sample_fleet)
   \<and> \<not> merge_raises (map raw_vehicle_id sample_deliveries) (map fleet_vehicle_id sample_fleet)
   \<and> (\<exists>rows. load_and_prepare_data (Csv sample_deliveries) (Csv sample_fleet) = Inr ([], rows)
           \<and> length rows = 2
           \<and> raw_vehicle_id (sample_deliveries ! 1) \<notin> fleet_vehicle_id ` set sample_fleet
           \<and> delivery_id (rows ! 1) = ''D2''
           \<and> vehicle_home_city (rows ! 1) = None)"
proof -
  have h: "distinct (map fleet_vehicle_id sample_fleet)"
    by (simp add: sample_fleet_def)
  have g: "\<not> merge_raises (map raw_vehicle_id sample_deliveries) (map fleet_vehicle_id sample_fleet)"
    by (simp add: merge_raises_def sample_deliveries_def sample_fleet_def sample_delivery_def)
  have n: "length sample_deliveries = 2" "(1::nat) < length sample_deliveries"
    "raw_vehicle_id (sample_deliveries ! 1) \<notin> fleet_vehicle_id ` set sample_fleet"
    "raw_delivery_id (sample_deliveries ! 1) = ''D2''"
    by (simp_all add: sample_deliveries_def sample_fleet_def sample_delivery_def)
  from left_join_row_count [OF h g] n h g show ?thesis
    by auto
qed

subsection \<open>Monthly buckets\<close>

text \<open>
  C5. On a table with rows the trend table exists; it has the buckets of the monthly
  resampling, in strictly ascending order of their calendar month. Every row lies in the
  bucket of the month of its date, and two rows lie in one bucket exactly when their
  dates have the same year and the same month: rows dated 2024-01-31 and 2024-02-01 lie
  in different buckets. The label \<open>month_name\<close> plays no part in the grouping.
\<close>

theorem trend_buckets_by_calendar_month:
  "(df \<noteq> [] \<longrightarrow> (\<exists>t. monthly_trend df = Inr t))
   \<and> (\<forall>t. monthly_trend df = Inr t
         \<longrightarrow> sorted_wrt (<) (map mt_date t) \<and> map mt_date t = map fst (resample_M df))
   \<and> (\<forall>r \<in> set df. \<exists>b \<in> set (resample_M df). fst b = month_index (date r) \<and> r \<in> set (snd b))
   \<and> (\<forall>r1 \<in> set df. \<forall>r2 \<in> set df.
         (\<exists>b \<in> set (resample_M df). r1 \<in> set (snd b) \<and> r2 \<in> set (snd b))
           \<longleftrightarrow> year (date r1) = year (date r2) \<and> month (date r1) = month (date r2))
   \<and> (\<forall>r1 \<in> set df. \<forall>r2 \<in> set df.
         date r1 = \<lparr> year = 2024, month = Jan, day = 31 \<rparr>
         \<and> date r2 = \<lparr> year = 2024, month = Feb, day = 1 \<rparr>
         \<longrightarrow> \<not> (\<exists>b \<in> set (resample_M df). r1 \<in> set (snd b) \<and> r2 \<in> set (snd b)))"
proof (intro conjI ballI impI allI)
  assume "df \<noteq> []"
  then show "\<exists>t. monthly_trend df = Inr t"
    by (simp add: monthly_trend_def)
next
  fix t assume "monthly_trend df = Inr t"
  then have t: "t = map trend_row (resample_M df)"
    by (simp add: monthly_trend_def split: if_splits)
  show "sorted_wrt (<) (map mt_date t)"
    by (simp only: t trend_dates resample_keys) (simp del: upt_Suc)
  show "map mt_date t = map fst (resample_M df)"
    by (simp only: t trend_dates)
next
  fix r assume r: "r \<in> set df"
  from resample_member [OF r] r
  show "\<exists>b \<in> set (resample_M df). fst b = month_index (date r) \<and> r \<in> set (snd b)"
    by force
next
  fix r1 r2 assume "r1 \<in> set df" "r2 \<in> set df"
  then show "(\<exists>b \<in> set (resample_M df). r1 \<in> set (snd b) \<and> r2 \<in> set (snd b))
           \<longleftrightarrow> year (date r1) = year (date r2) \<and> month (date r1) = month (date r2)"
    by (simp only: same_bucket_iff month_index_eq_iff)
next
  fix r1 r2 assume rs: "r1 \<in> set df" "r2 \<in> set df"
    and d: "date r1 = \<lparr> year = 2024, month = Jan, day = 31 \<rparr>
         \<and> date r2 = \<lparr> year = 2024, month = Feb, day = 1 \<rparr>"
  from d have "month (date r1) \<noteq> month (date r2)" by simp
  then show "\<not> (\<exists>b \<in> set (resample_M df). r1 \<in> set (snd b) \<and> r2 \<in> set (snd b))"
    by (simp only: same_bucket_iff [OF rs] month_index_eq_iff) simp
qed

text \<open>On the two sample deliveries, dated 2024-01-31 and 2024-02-01.\<close>

text \<open>On the two sample deliveries, dated 2024-01-31 and 2024-02-01.\<close>

theorem trend_buckets_witness:
  "sample_df \<noteq> []
   \<and> sample_df ! 0 \<in> set sample_df \<and> sample_df ! 1 \<in> set sample_df
   \<and> date (sample_df ! 0) = \<lparr> year = 2024, month = Jan, day = 31 \<rparr>
   \<and> date (sample_df ! 1) = \<lparr> year = 2024, month = Feb, day = 1 \<rparr>
   \<and> \<not> (\<exists>b \<in> set (resample_M sample_df). sample_df ! 0 \<in> set (snd b) \<and> sample_df ! 1 \<in> set (snd b))
   \<and> (\<exists>t. monthly_trend sample_df = Inr t
          \<and> map mt_date t = [24288, 24289] \<and> sorted_wrt (<) (map mt_date t))"
proof -
  have ne: "sample_df \<noteq> []"
    by (simp add: sample_df_eval)
  have h: "sample_df ! 0 \<in> set sample_df" "sample_df ! 1 \<in> set sample_df"
    "date (sample_df ! 0) = \<lparr> year = 2024, month = Jan, day = 31 \<rparr>"
    "date (sample_df ! 1) = \<lparr> year = 2024, month = Feb, day = 1 \<rparr>"
    by (simp_all add: sample_df_eval)
  have k: "map fst (resample_M sample_df) = [24288, 24289]"
    by (simp add: sample_resample)
  note tb = trend_buckets_by_calendar_month [of sample_df]
  from tb h
  have apart: "\<not> (\<exists>b \<in> set (resample_M sample_df). sample_df ! 0 \<in> set (snd b) \<and> sample_df ! 1 \<in> set (snd b))"
    by blast
  from tb ne obtain t where t: "monthly_trend sample_df = Inr t"
    by blast
  with tb have "sorted_wrt (<) (map mt_date t) \<and> map mt_date t = map fst (resample_M sample_df)"
    by blast
  with k t have "\<exists>t. monthly_trend sample_df = Inr t
          \<and> map mt_date t = [24288, 24289] \<and> sorted_wrt (<) (map mt_date t)"
    by simp
  with ne h apart show ?thesis by simp
qed

text \<open>
  C9. The monthly summary and the monthly trend of a non-empty table exist and have one
  bucket for every calendar month from the month of the earliest date to the month of
  the latest, both attained. A bucket of a month without rows has NaN for each mean and
  0 for the count. When the month before the latest has no row and the table has an
  earlier row, the last but one bucket of the monthly summary is that empty month, and
  the deltas that \<open>main\<close> computes are NaN for the four means and 0 for the count.
\<close>

theorem resample_fills_empty_months:
  assumes "df \<noteq> []"
  shows "\<exists>s t. monthly_summary df = Inr s \<and> monthly_trend df = Inr t
       \<and> map ms_date s = [first_month df ..< Suc (last_month df)]
       \<and> map mt_date t = [first_month df ..< Suc (last_month df)]
       \<and> (\<exists>r \<in> set df. month_index (date r) = first_month df)
       \<and> (\<exists>r \<in> set df. month_index (date r) = last_month df)
       \<and> (\<forall>r \<in> set df. first_month df \<le> month_index (date r)
                        \<and> month_index (date r) \<le> last_month df)
       \<and> (\<forall>b \<in> set s.
             (\<forall>r \<in> set df. month_index (date r) \<noteq> ms_date b) \<longrightarrow>
               ms_avg_delay b = NaN \<and> ms_on_time_rate b = NaN \<and> ms_cost_per_km b = NaN
               \<and> ms_deliveries_per_vehicle b = Fin 0 \<and> ms_fuel_cost_ratio b = NaN)
       \<and> (\<forall>b \<in> set t.
             (\<forall>r \<in> set df. month_index (date r) \<noteq> mt_date b) \<longrightarrow>
               mt_avg_delay b = NaN \<and> mt_cost_per_km b = NaN)
       \<and> (first_month df < last_month df
           \<and> (\<forall>r \<in> set df. month_index (date r) \<noteq> last_month df - 1) \<longrightarrow>
            (let prev = s ! (length s - 2)
             in 2 \<le> length s \<and> ms_date prev = last_month df - 1
                \<and> ms_avg_delay prev = NaN \<and> ms_deliveries_per_vehicle prev = Fin 0
                \<and> compute_mom_values s =
                     \<lparr> mom_avg_delay = NaN, mom_on_time_rate = NaN, mom_cost_per_km = NaN,
                       mom_deliveries_per_vehicle = Fin 0, mom_fuel_cost_ratio = NaN \<rparr>))"
proof -
  define s where "s = map summary_row (resample_M df)"
  define t where "t = map trend_row (resample_M df)"
  have ms: "monthly_summary df = Inr s"
    using assms by (simp add: monthly_summary_def s_def)
  have mt: "monthly_trend df = Inr t"
    using assms by (simp add: monthly_trend_def t_def)
  have body: "map ms_date s = [first_month df ..< Suc (last_month df)]
       \<and> map mt_date t = [first_month df ..< Suc (last_month df)]
       \<and> (\<exists>r \<in> set df. month_index (date r) = first_month df)
       \<and> (\<exists>r \<in> set df. month_index (date r) = last_month df)
       \<and> (\<forall>r \<in> set df. first_month df \<le> month_index (date r)
                        \<and> month_index (date r) \<le> last_month df)
       \<and> (\<forall>b \<in> set s.
             (\<forall>r \<in> set df. month_index (date r) \<noteq> ms_date b) \<longrightarrow>
               ms_avg_delay b = NaN \<and> ms_on_time_rate b = NaN \<and> ms_cost_per_km b = NaN
               \<and> ms_deliveries_per_vehicle b = Fin 0 \<and> ms_fuel_cost_ratio b = NaN)
       \<and> (\<forall>b \<in> set t.
             (\<forall>r \<in> set df. month_index (date r) \<noteq> mt_date b) \<longrightarrow>
               mt_avg_delay b = NaN \<and> mt_cost_per_km b = NaN)
       \<and> (first_month df < last_month df
           \<and> (\<forall>r \<in> set df. month_index (date r) \<noteq> last_month df - 1) \<longrightarrow>
            (let prev = s ! (length s - 2)
             in 2 \<le> length s \<and> ms_date prev = last_month df - 1
                \<and> ms_avg_delay prev = NaN \<and> ms_deliveries_per_vehicle prev = Fin 0
                \<and> compute_mom_values s =
                     \<lparr> mom_avg_delay = NaN, mom_on_time_rate = NaN, mom_cost_per_km = NaN,
                       mom_deliveries_per_vehicle = Fin 0, mom_fuel_cost_ratio = NaN \<rparr>))"
  proof (intro conjI ballI impI)
    show "map ms_date s = [first_month df ..< Suc (last_month df)]"
      using assms by (simp only: s_def summary_dates resample_keys if_False)
    show "map mt_date t = [first_month df ..< Suc (last_month df)]"
      using assms by (simp only: t_def trend_dates resample_keys if_False)
    show "\<exists>r \<in> set df. month_index (date r) = first_month df"
      by (rule first_month_attained [OF assms])
    show "\<exists>r \<in> set df. month_index (date r) = last_month df"
      by (rule last_month_attained [OF assms])
  next
    fix r assume "r \<in> set df"
    then show "first_month df \<le> month_index (date r)" "month_index (date r) \<le> last_month df"
      by (rule month_bounds)+
  next
    fix b assume b: "b \<in> set s"
      and none: "\<forall>r \<in> set df. month_index (date r) \<noteq> ms_date b"
    from b obtain p where p: "p \<in> set (resample_M df)" and bp: "b = summary_row p"
      by (auto simp: s_def)
    from none bp have "\<forall>r \<in> set df. month_index (date r) \<noteq> fst p"
      by (simp add: summary_row_def)
    from resample_empty_bucket [OF p this] have e: "snd p = []" .
    show "ms_avg_delay b = NaN" "ms_on_time_rate b = NaN" "ms_cost_per_km b = NaN"
      "ms_deliveries_per_vehicle b = Fin 0" "ms_fuel_cost_ratio b = NaN"
      by (simp_all add: bp summary_row_def e series_mean_def series_count_def of_count_def)
  next
    fix b assume b: "b \<in> set t"
      and none: "\<forall>r \<in> set df. month_index (date r) \<noteq> mt_date b"
    from b obtain p where p: "p \<in> set (resample_M df)" and bp: "b = trend_row p"
      by (auto simp: t_def)
    from none bp have "\<forall>r \<in> set df. month_index (date r) \<noteq> fst p"
      by (simp add: trend_row_def)
    from resample_empty_bucket [OF p this] have e: "snd p = []" .
    show "mt_avg_delay b = NaN" "mt_cost_per_km b = NaN"
      by (simp_all add: bp trend_row_def e series_mean_def series_count_def)
  next
    assume gap: "first_month df < last_month df
             \<and> (\<forall>r \<in> set df. month_index (date r) \<noteq> last_month df - 1)"
    define prev where "prev = s ! (length s - 2)"
    have len: "length s = length (resample_M df)"
      by (simp add: s_def)
    have lt: "first_month df < last_month df"
      using gap by simp
    have two: "2 \<le> length s"
      using lt by (simp add: len resample_length [OF assms])
    have e: "filter (\<lambda>r. month_index (date r) = last_month df - 1) df = []"
      using gap by (simp add: filter_empty_conv)
    have bucket: "resample_M df ! (length s - 2) = (last_month df - 1, [])"
      using resample_prev [OF assms lt] e by (simp add: len)
    have "prev = summary_row (resample_M df ! (length s - 2))"
    proof -
      have "length s - 2 < length (resample_M df)"
        using two by (simp add: len)
      then show ?thesis
        unfolding prev_def s_def by (rule nth_map)
    qed
    then have prev_eq: "prev = \<lparr> ms_date = last_month df - 1, ms_avg_delay = NaN, ms_on_time_rate = NaN,
                          ms_cost_per_km = NaN, ms_deliveries_per_vehicle = Fin 0,
                          ms_fuel_cost_ratio = NaN \<rparr>"
      by (simp add: bucket summary_row_def series_mean_def series_count_def of_count_def)
    have nan: "mom_of (map c s) = NaN" if "c prev = NaN" for c :: "monthly_summary_row \<Rightarrow> fl"
      using two that by (simp add: mom_of_def Let_def prev_def fl_sub_NaN fl_div_NaN)
    have zero: "mom_of (map c s) = Fin 0" if "c prev = Fin 0" for c :: "monthly_summary_row \<Rightarrow> fl"
      using two that by (simp add: mom_of_def Let_def prev_def)
    have mom: "compute_mom_values s =
          \<lparr> mom_avg_delay = NaN, mom_on_time_rate = NaN, mom_cost_per_km = NaN,
            mom_deliveries_per_vehicle = Fin 0, mom_fuel_cost_ratio = NaN \<rparr>"
      unfolding compute_mom_values_def
      by (simp add: nan zero prev_eq)
    from two prev_eq mom
    show "let prev = s ! (length s - 2)
          in 2 \<le> length s \<and> ms_date prev = last_month df - 1
             \<and> ms_avg_delay prev = NaN \<and> ms_deliveries_per_vehicle prev = Fin 0
             \<and> compute_mom_values s =
                  \<lparr> mom_avg_delay = NaN, mom_on_time_rate = NaN, mom_cost_per_km = NaN,
                    mom_deliveries_per_vehicle = Fin 0, mom_fuel_cost_ratio = NaN \<rparr>"
      by (simp add: Let_def prev_def [symmetric])
  qed
  from ms mt body show ?thesis by blast
qed

text \<open>On the three sample deliveries of January, February and April 2024.\<close>

theorem resample_fills_empty_months_witness:
  "sample_df_gap \<noteq> []
   \<and> map (\<lambda>r. month_index (date r)) sample_df_gap = [24288, 24289, 24291]
   \<and> (\<exists>s. monthly_summary sample_df_gap = Inr s
        \<and> map ms_date s = [24288, 24289, 24290, 24291]
        \<and> ms_date (s ! 2) = 24290
        \<and> ms_avg_delay (s ! 2) = NaN
        \<and> ms_deliveries_per_vehicle (s ! 2) = Fin 0
        \<and> compute_mom_values s =
             \<lparr> mom_avg_delay = NaN, mom_on_time_rate = NaN, mom_cost_per_km = NaN,
               mom_deliveries_per_vehicle = Fin 0, mom_fuel_cost_ratio = NaN \<rparr>)"
proof -
  have ne: "sample_df_gap \<noteq> []"
    using sample_gap_months by auto
  have gap: "first_month sample_df_gap < last_month sample_df_gap
           \<and> (\<forall>r \<in> set sample_df_gap. month_index (date r) \<noteq> last_month sample_df_gap - 1)"
  proof -
    have "\<forall>k \<in> set (map (\<lambda>r. month_index (date r)) sample_df_gap). k \<noteq> 24290"
      by (simp add: sample_gap_months)
    then show ?thesis by (simp add: sample_gap_bounds)
  qed
  from resample_fills_empty_months [OF ne] gap obtain s where
    s: "monthly_summary sample_df_gap = Inr s"
    and dates0: "map ms_date s = [first_month sample_df_gap ..< Suc (last_month sample_df_gap)]"
    and prev: "let prev = s ! (length s - 2)
        in 2 \<le> length s \<and> ms_date prev = last_month sample_df_gap - 1
           \<and> ms_avg_delay prev = NaN \<and> ms_deliveries_per_vehicle prev = Fin 0
           \<and> compute_mom_values s =
                \<lparr> mom_avg_delay = NaN, mom_on_time_rate = NaN, mom_cost_per_km = NaN,
                  mom_deliveries_per_vehicle = Fin 0, mom_fuel_cost_ratio = NaN \<rparr>"
    by blast
  from dates0 have dates: "map ms_date s = [24288, 24289, 24290, 24291]"
    by (simp add: sample_gap_bounds upt_rec)
  have "length (map ms_date s) = 4"
    by (simp only: dates) simp
  then have len: "length s = 4"
    by simp
  from prev have "ms_date (s ! 2) = 24290 \<and> ms_avg_delay (s ! 2) = NaN
        \<and> ms_deliveries_per_vehicle (s ! 2) = Fin 0
        \<and> compute_mom_values s =
             \<lparr> mom_avg_delay = NaN, mom_on_time_rate = NaN, mom_cost_per_km = NaN,
               mom_deliveries_per_vehicle = Fin 0, mom_fuel_cost_ratio = NaN \<rparr>"
    by (simp add: Let_def len sample_gap_bounds)
  with s dates ne show ?thesis
    by (simp add: sample_gap_months)
qed

subsection \<open>Determinism\<close>

text \<open>
  C8. A run of \<open>main\<close> on given contents of the two files and a given selection
  produces the same result (the messages and the dashboard with its KPIs, deltas and
  chart tables, or the exception) whatever runs on the same files came before it: the
  memoised results that earlier runs leave behind never change what a run computes,
  which is the value of the pure function \<open>main\<close> on the files and the selection.
\<close>

theorem runs_are_deterministic:
  "fst (main_cached deliveries_csv fleet_csv selected_city selected_month
          (run_session deliveries_csv fleet_csv earlier_runs empty_cache))
   = fst (main_cached deliveries_csv fleet_csv selected_city selected_month
          (run_session deliveries_csv fleet_csv other_earlier_runs empty_cache))
   \<and> fst (main_cached deliveries_csv fleet_csv selected_city selected_month
          (run_session deliveries_csv fleet_csv earlier_runs empty_cache))
     = main deliveries_csv fleet_csv selected_city selected_month"
  by (simp add: main_cached_result(1) run_session_coherent coherent_empty)

end
